theory Spec2Isabelle
  imports Main
begin

section \<open>Data model\<close>

text \<open>
  The order lifecycle of \<^verbatim>\<open>server.js\<close>: the JSON files under \<^verbatim>\<open>data/\<close>, the DynamoDB
  mirror, the daily order counter and the four order routes.

  Records follow the object literals of the source. The field \<^verbatim>\<open>id\<close> of an order is
  \<open>oid\<close> and that of a user is \<open>uid\<close>, since \<open>id\<close> is HOL's identity function. The
  amounts and quantities of an order are carried and never computed with; they are
  integers. Times are the strings the source stores:
  \<^verbatim>\<open>toISOString()\<close> for timestamps and \<^verbatim>\<open>toDateString()\<close> for the counter's day.
\<close>

record item =
  item_id :: string
  quantity :: int
  price :: int

text \<open>The order built by \<^verbatim>\<open>POST /api/orders\<close>; \<open>updatedAt\<close> is absent until a status change.\<close>

record order =
  oid :: string
  orderId :: string
  userId :: string
  adminId :: string
  items :: "item list"
  totalAmount :: int
  paymentMethod :: string
  orderType :: string
  scheduledTime :: "string option"
  status :: string
  otp :: string
  createdAt :: string
  pickup :: string
  updatedAt :: "string option"

text \<open>
  The fields of a user that the order routes read; \<open>notifications\<close> is the truth value of
  \<^verbatim>\<open>user.preferences?.notifications\<close>.
\<close>

record user =
  uid :: string
  name :: string
  email :: string
  phone :: string
  notifications :: bool

text \<open>
  The counter is a JavaScript number, a double. The model covers the integers from
  \<open>- 2 ^ 53\<close> to \<open>2 ^ 53\<close>: in this range every integer is a double, \<^verbatim>\<open>JSON.parse\<close> and
  \<^verbatim>\<open>JSON.stringify\<close> keep it, and a template literal prints all its digits.
\<close>

typedef exact_int = "{n :: int. - (2 ^ 53) \<le> n \<and> n \<le> 2 ^ 53}"
  morphisms int_of Exact
  by (rule exI[of _ 0]) simp

text \<open>
  \<^verbatim>\<open>x + 1\<close> on such a number (\<^verbatim>\<open>counter.counter += 1\<close>): exact below \<open>2 ^ 53\<close>. The sum
  \<open>2 ^ 53 + 1\<close> is not a double; it lies half way between the doubles \<open>2 ^ 53\<close> and
  \<open>2 ^ 53 + 2\<close> and rounds to the even one, \<open>2 ^ 53\<close>.
\<close>

definition plus_one :: "exact_int \<Rightarrow> exact_int" where
  "plus_one x = (if int_of x = 2 ^ 53 then x else Exact (int_of x + 1))"

text \<open>The content of \<^verbatim>\<open>order-counter.json\<close>.\<close>

record daily_counter =
  date :: string
  counter :: exact_int

text \<open>
  What \<^verbatim>\<open>JSON.parse\<close> gives for a data file: an array of records, or an object
  (\<open>Obj None\<close> is the empty object \<^verbatim>\<open>{}\<close>).
\<close>

datatype 'a js = Arr "'a list" | Obj "'a option"

text \<open>
  A data file. \<open>content = None\<close>: \<^verbatim>\<open>fs.readFile\<close> or \<^verbatim>\<open>JSON.parse\<close> throws (the file is missing
  or is not JSON). \<open>writable = False\<close>: \<^verbatim>\<open>fs.writeFile\<close> throws.
\<close>

record 'a json_file =
  content :: "'a js option"
  writable :: bool

text \<open>
  The values interpolated into the two e-mails of the order routes, with the recipient.
  The rendered subject and HTML are not modelled.
\<close>

datatype notification =
  OrderPlaced string string string
  | OrderUpdate string string string "string option"

text \<open>
  The state the order routes work on: three data files, the DynamoDB orders table keyed
  by \<^verbatim>\<open>id\<close> (\<open>dynamo_fails\<close>: \<^verbatim>\<open>put\<close> rejects), and the e-mails handed to \<^verbatim>\<open>sendEmail\<close>.
\<close>

record world =
  orders_json :: "order json_file"
  users_json :: "user json_file"
  order_counter_json :: "daily_counter json_file"
  orders_table :: "(string \<times> order) list"
  dynamo_fails :: bool
  outbox :: "notification list"

text \<open>What a route reads from outside the state: \<^verbatim>\<open>uuidv4()\<close>, the random OTP and the clock.\<close>

record env =
  uuid :: string
  otp4 :: string
  now :: string
  today :: string

text \<open>The body of \<^verbatim>\<open>POST /api/orders\<close>; an absent optional field is \<open>None\<close>.\<close>

record order_request =
  req_userId :: string
  req_items :: "item list"
  req_totalAmount :: int
  req_paymentMethod :: string
  req_adminId :: string
  req_orderType :: "string option"
  req_scheduledTime :: "string option"

text \<open>The exceptions the order routes can raise, all caught by the route's \<^verbatim>\<open>catch\<close>.\<close>

datatype type_error = NotAFunction string | PropertyOfUndefined string

text \<open>
  The error responses: \<open>OrderNotFound\<close> is 404 \<^verbatim>\<open>Order not found\<close>, \<open>NotCancellable\<close> is
  400 \<^verbatim>\<open>Order cannot be cancelled at this stage\<close>, \<open>InternalError\<close> is the 500 of the
  route's \<^verbatim>\<open>catch\<close> with the exception's message.
\<close>

datatype error = OrderNotFound | NotCancellable | InternalError type_error

datatype 'a response = Success 'a | Failure error

fun http_status :: "'a response \<Rightarrow> nat" where
  "http_status (Success _) = 200"
| "http_status (Failure OrderNotFound) = 404"
| "http_status (Failure NotCancellable) = 400"
| "http_status (Failure (InternalError _)) = 500"

text \<open>An order of \<^verbatim>\<open>GET /api/orders\<close>: \<^verbatim>\<open>{...order, userName, userPhone}\<close>.\<close>

record enriched =
  base :: order
  userName :: string
  userPhone :: string

section \<open>Storage helpers\<close>

text \<open>
  \<^verbatim>\<open>Array.isArray\<close> on a string. \<^verbatim>\<open>readFromJSON\<close> applies it to the file name, which is
  a string for every caller, and a string is not an array.
\<close>

definition isArray :: "string \<Rightarrow> bool" where
  "isArray filename = False"

text \<open>\<^verbatim>\<open>saveToJSON\<close>: a failed write is logged and nothing is thrown.\<close>

definition saveToJSON :: "string \<Rightarrow> 'a js \<Rightarrow> 'a json_file \<Rightarrow> 'a json_file" where
  "saveToJSON filename data f = (if writable f then f\<lparr>content := Some data\<rparr> else f)"

text \<open>\<^verbatim>\<open>readFromJSON\<close>: a failed read is logged and the \<^verbatim>\<open>catch\<close> returns its default.\<close>

definition readFromJSON :: "string \<Rightarrow> 'a json_file \<Rightarrow> 'a js" where
  "readFromJSON filename f =
     (case content f of
        Some data \<Rightarrow> data
      | None \<Rightarrow> if isArray filename then Arr [] else Obj None)"

text \<open>A DynamoDB \<^verbatim>\<open>put\<close>: the item replaces the one with its key, or is added.\<close>

fun put :: "string \<Rightarrow> 'a \<Rightarrow> (string \<times> 'a) list \<Rightarrow> (string \<times> 'a) list" where
  "put k v [] = [(k, v)]"
| "put k v ((k', v') # rows) = (if k' = k then (k, v) # rows else (k', v') # put k v rows)"

text \<open>\<^verbatim>\<open>saveToDynamoDB(process.env.ORDERS_TABLE, order)\<close>: a failed put is logged, once.\<close>

definition saveToDynamoDB :: "order \<Rightarrow> world \<Rightarrow> world" where
  "saveToDynamoDB item w =
     (if dynamo_fails w then w else w\<lparr>orders_table := put (oid item) item (orders_table w)\<rparr>)"

text \<open>\<^verbatim>\<open>sendEmail\<close>: never throws; the message is handed to the mail service.\<close>

definition sendEmail :: "notification \<Rightarrow> world \<Rightarrow> world" where
  "sendEmail n w = w\<lparr>outbox := outbox w @ [n]\<rparr>"

section \<open>Sequential ID allocator\<close>

text \<open>
  A number in a template literal: decimal digits, with a sign when negative. \<open>digit\<close> is
  only applied to numbers below ten.
\<close>

definition digit :: "nat \<Rightarrow> char" where
  "digit d = ''0123456789'' ! d"

function show_nat :: "nat \<Rightarrow> string" where
  "show_nat n = (if n < 10 then [digit n] else show_nat (n div 10) @ [digit (n mod 10)])"
  by pat_completeness auto
termination
  by (relation "measure (\<lambda>n. n)") auto

declare show_nat.simps [simp del]

definition show_int :: "int \<Rightarrow> string" where
  "show_int i = (if i < 0 then CHR ''-'' # show_nat (nat (- i)) else show_nat (nat i))"

definition order_code :: "int \<Rightarrow> string" where
  "order_code n = ''CC-#'' @ show_int n"

text \<open>Reading a rendered number back, to show that distinct numbers render differently.\<close>

definition digit_val :: "char \<Rightarrow> nat" where
  "digit_val c = of_char c - 48"

definition read_nat :: "string \<Rightarrow> nat" where
  "read_nat s = foldl (\<lambda>a c. 10 * a + digit_val c) 0 s"

text \<open>
  The part of \<^verbatim>\<open>generateOrderID\<close> between its two \<^verbatim>\<open>await\<close>s, on the value read: the object
  to save and the \<^verbatim>\<open>counter.counter\<close> of the returned code. On \<^verbatim>\<open>{}\<close> and on an array
  \<^verbatim>\<open>counter.date\<close> is undefined, so the first branch runs; the two properties set on an
  array are not written by \<^verbatim>\<open>JSON.stringify\<close>.
\<close>

fun next_counter :: "string \<Rightarrow> daily_counter js \<Rightarrow> daily_counter js \<times> int" where
  "next_counter day (Obj (Some c)) =
     (if date c \<noteq> day
      then (Obj (Some (c\<lparr>date := day, counter := Exact 1\<rparr>)), 1)
      else (Obj (Some (c\<lparr>counter := plus_one (counter c)\<rparr>)), int_of (plus_one (counter c))))"
| "next_counter day (Obj None) = (Obj (Some \<lparr>date = day, counter = Exact 1\<rparr>), 1)"
| "next_counter day (Arr cs) = (Arr cs, 1)"

definition generateOrderID :: "string \<Rightarrow> daily_counter json_file \<Rightarrow> string \<times> daily_counter json_file" where
  "generateOrderID day f =
     (let cnt = readFromJSON ''order-counter.json'' f;
          (cnt', n) = next_counter day cnt
      in (order_code n, saveToJSON ''order-counter.json'' cnt' f))"

text \<open>\<open>N\<close> allocations one after the other: the codes in allocation order, and the file.\<close>

fun allocate :: "string \<Rightarrow> nat \<Rightarrow> daily_counter json_file \<Rightarrow> string list \<times> daily_counter json_file" where
  "allocate day 0 f = ([], f)"
| "allocate day (Suc n) f =
     (let (code, f') = generateOrderID day f;
          (codes, f'') = allocate day n f'
      in (code # codes, f''))"

text \<open>
  Overlapping allocations. A call is suspended at its two \<^verbatim>\<open>await\<close>s: it has not read
  yet, it holds the value it read, or it has returned its code. \<open>resume i\<close> runs call \<open>i\<close>
  up to its next \<^verbatim>\<open>await\<close>; a schedule is the order in which the calls are resumed.
\<close>

datatype call = Waiting | Holding "daily_counter js" | Returned string

fun resume :: "string \<Rightarrow> nat \<Rightarrow> daily_counter json_file \<times> call list \<Rightarrow> daily_counter json_file \<times> call list" where
  "resume day i (f, calls) =
     (if i < length calls
      then (case calls ! i of
              Waiting \<Rightarrow> (f, calls[i := Holding (readFromJSON ''order-counter.json'' f)])
            | Holding cnt \<Rightarrow>
                (let (cnt', n) = next_counter day cnt
                 in (saveToJSON ''order-counter.json'' cnt' f, calls[i := Returned (order_code n)]))
            | Returned code \<Rightarrow> (f, calls))
      else (f, calls))"

fun run :: "string \<Rightarrow> nat list \<Rightarrow> daily_counter json_file \<times> call list \<Rightarrow> daily_counter json_file \<times> call list" where
  "run day [] s = s"
| "run day (i # schedule) s = run day schedule (resume day i s)"

text \<open>The schedule in which no two calls overlap: call \<open>0\<close> reads and writes, then call \<open>1\<close>, ...\<close>

definition serial :: "nat \<Rightarrow> nat list" where
  "serial n = concat (map (\<lambda>i. [i, i]) [0..<n])"

text \<open>
  No code of the day has been allocated yet: the counter file cannot be read, holds \<^verbatim>\<open>{}\<close>,
  holds the counter of another day, or holds counter \<open>0\<close> (as \<^verbatim>\<open>initializeDataFiles\<close> writes it).
\<close>

definition unallocated :: "string \<Rightarrow> daily_counter json_file \<Rightarrow> bool" where
  "unallocated day f =
     (case content f of
        None \<Rightarrow> True
      | Some (Obj None) \<Rightarrow> True
      | Some (Obj (Some c)) \<Rightarrow> date c \<noteq> day \<or> counter c = Exact 0
      | Some (Arr cs) \<Rightarrow> False)"

declare resume.simps [simp del]

section \<open>Order routes\<close>

text \<open>\<^verbatim>\<open>x || d\<close> on an optional string: absent and empty are falsy.\<close>

fun truthy :: "string option \<Rightarrow> bool" where
  "truthy None = False"
| "truthy (Some s) = (s \<noteq> [])"

text \<open>\<^verbatim>\<open>x || d\<close> with a string default, and \<^verbatim>\<open>x || null\<close>.\<close>

definition or_default :: "string option \<Rightarrow> string \<Rightarrow> string" where
  "or_default x d = (case x of None \<Rightarrow> d | Some s \<Rightarrow> if s = [] then d else s)"

definition or_null :: "string option \<Rightarrow> string option" where
  "or_null x = (if truthy x then x else None)"

text \<open>\<^verbatim>\<open>Array.prototype.findIndex\<close>; \<^verbatim>\<open>find\<close> returns a reference to the element at it.\<close>

fun findIndex :: "('a \<Rightarrow> bool) \<Rightarrow> 'a list \<Rightarrow> nat option" where
  "findIndex p [] = None"
| "findIndex p (x # xs) = (if p x then Some 0 else map_option Suc (findIndex p xs))"

text \<open>\<^verbatim>\<open>POST /api/orders\<close>: the order object, then the route.\<close>

definition new_order :: "env \<Rightarrow> order_request \<Rightarrow> string \<Rightarrow> order" where
  "new_order e req code =
     \<lparr>oid = uuid e, orderId = code, userId = req_userId req,
      adminId = req_adminId req, items = req_items req,
      totalAmount = req_totalAmount req, paymentMethod = req_paymentMethod req,
      orderType = or_default (req_orderType req) ''instant'',
      scheduledTime = or_null (req_scheduledTime req),
      status = ''pending'', otp = otp4 e, createdAt = now e,
      pickup = ''Canteen Pickup'', updatedAt = None\<rparr>"

definition createOrder :: "env \<Rightarrow> order_request \<Rightarrow> world \<Rightarrow> order response \<times> world" where
  "createOrder e req w =
     (let (code, cf) = generateOrderID (today e) (order_counter_json w);
          w1 = w\<lparr>order_counter_json := cf\<rparr>;
          order = new_order e req code
      in case readFromJSON ''orders.json'' (orders_json w1) of
           Obj x \<Rightarrow> (Failure (InternalError (NotAFunction ''orders.push'')), w1)
         | Arr orders \<Rightarrow>
             (let w2 = w1\<lparr>orders_json := saveToJSON ''orders.json'' (Arr (orders @ [order])) (orders_json w1)\<rparr>;
                  w3 = saveToDynamoDB order w2
              in case readFromJSON ''users.json'' (users_json w3) of
                   Obj x \<Rightarrow> (Failure (InternalError (NotAFunction ''users.find'')), w3)
                 | Arr users \<Rightarrow>
                     (case find (\<lambda>u. uid u = req_userId req) users of
                        None \<Rightarrow> (Failure (InternalError (PropertyOfUndefined ''email'')), w3)
                      | Some u \<Rightarrow>
                          (Success order, sendEmail (OrderPlaced (email u) code (otp4 e)) w3))))"

text \<open>\<^verbatim>\<open>GET /api/orders\<close>, with the three optional query parameters.\<close>

definition enrich :: "user list \<Rightarrow> order \<Rightarrow> enriched" where
  "enrich users order =
     (case find (\<lambda>u. uid u = userId order) users of
        None \<Rightarrow> \<lparr>base = order, userName = ''Unknown'', userPhone = ''N/A''\<rparr>
      | Some u \<Rightarrow> \<lparr>base = order,
                   userName = (if name u \<noteq> [] then name u else ''Unknown''),
                   userPhone = (if phone u \<noteq> [] then phone u else ''N/A'')\<rparr>)"

text \<open>\<^verbatim>\<open>if (q) orders = orders.filter(o => o.field === q)\<close>.\<close>

definition apply_filter :: "string option \<Rightarrow> (order \<Rightarrow> string) \<Rightarrow> order list \<Rightarrow> order list" where
  "apply_filter q field orders =
     (case q of
        None \<Rightarrow> orders
      | Some v \<Rightarrow> if v = [] then orders else filter (\<lambda>x. field x = v) orders)"

definition listOrders ::
  "string option \<Rightarrow> string option \<Rightarrow> string option \<Rightarrow> world \<Rightarrow> enriched list response" where
  "listOrders q_userId q_adminId q_status w =
     (case readFromJSON ''orders.json'' (orders_json w) of
        Obj x \<Rightarrow>
          Failure (InternalError (NotAFunction
            (if truthy q_userId \<or> truthy q_adminId \<or> truthy q_status
             then ''orders.filter'' else ''orders.map'')))
      | Arr all_orders \<Rightarrow>
          (let orders = apply_filter q_status status
                          (apply_filter q_adminId adminId
                             (apply_filter q_userId userId all_orders))
           in case readFromJSON ''users.json'' (users_json w) of
                Obj x \<Rightarrow>
                  (if orders = [] then Success []
                   else Failure (InternalError (NotAFunction ''users.find'')))
              | Arr users \<Rightarrow> Success (rev (map (enrich users) orders))))"

text \<open>\<^verbatim>\<open>PATCH /api/orders/:id/status\<close>, with the requested status of the body.\<close>

definition setStatus :: "env \<Rightarrow> string \<Rightarrow> string \<Rightarrow> world \<Rightarrow> order response \<times> world" where
  "setStatus e ident new_status w =
     (case readFromJSON ''orders.json'' (orders_json w) of
        Obj x \<Rightarrow> (Failure (InternalError (NotAFunction ''orders.find'')), w)
      | Arr orders \<Rightarrow>
          (case findIndex (\<lambda>x. oid x = ident) orders of
             None \<Rightarrow> (Failure OrderNotFound, w)
           | Some i \<Rightarrow>
               (let order = (orders ! i)\<lparr>status := new_status, updatedAt := Some (now e)\<rparr>;
                    w1 = w\<lparr>orders_json := saveToJSON ''orders.json'' (Arr (orders[i := order])) (orders_json w)\<rparr>;
                    w2 = saveToDynamoDB order w1
                in case readFromJSON ''users.json'' (users_json w2) of
                     Obj x \<Rightarrow> (Failure (InternalError (NotAFunction ''users.find'')), w2)
                   | Arr users \<Rightarrow>
                       (case find (\<lambda>u. uid u = userId order) users of
                          None \<Rightarrow> (Success order, w2)
                        | Some u \<Rightarrow>
                            (if notifications u
                             then (Success order,
                                   sendEmail (OrderUpdate (email u) (orderId order) new_status
                                     (if new_status = ''ready'' then Some (otp order) else None)) w2)
                             else (Success order, w2))))))"

text \<open>\<^verbatim>\<open>PATCH /api/orders/:id/cancel\<close>.\<close>

definition cancelOrder :: "env \<Rightarrow> string \<Rightarrow> world \<Rightarrow> order response \<times> world" where
  "cancelOrder e ident w =
     (case readFromJSON ''orders.json'' (orders_json w) of
        Obj x \<Rightarrow> (Failure (InternalError (NotAFunction ''orders.find'')), w)
      | Arr orders \<Rightarrow>
          (case findIndex (\<lambda>x. oid x = ident) orders of
             None \<Rightarrow> (Failure OrderNotFound, w)
           | Some i \<Rightarrow>
               (if status (orders ! i) \<notin> set [''pending'', ''confirmed'']
                then (Failure NotCancellable, w)
                else (let order = (orders ! i)\<lparr>status := ''cancelled'', updatedAt := Some (now e)\<rparr>;
                          w1 = w\<lparr>orders_json := saveToJSON ''orders.json'' (Arr (orders[i := order])) (orders_json w)\<rparr>
                      in (Success order, saveToDynamoDB order w1)))))"

text \<open>The Durable Record Store: the three data files.\<close>

definition durable :: "world \<Rightarrow> order json_file \<times> user json_file \<times> daily_counter json_file" where
  "durable w = (orders_json w, users_json w, order_counter_json w)"

section \<open>Example states\<close>

text \<open>A clock reading, an order in a given status, its owner, and a state holding them.\<close>

definition example_env :: env where
  "example_env =
     \<lparr>uuid = ''7d9f2c1e'', otp4 = ''4821'', now = ''2026-11-02T09:30:00.000Z'',
      today = ''Mon Nov 02 2026''\<rparr>"

definition example_order :: "string \<Rightarrow> string \<Rightarrow> order" where
  "example_order ident st =
     \<lparr>oid = ident, orderId = ''CC-#1'', userId = ''u-1'', adminId = ''a-1'',
      items = [\<lparr>item_id = ''A'', quantity = 2, price = 50\<rparr>], totalAmount = 100,
      paymentMethod = ''cash'', orderType = ''instant'', scheduledTime = None,
      status = st, otp = ''4821'', createdAt = ''2026-11-02T09:00:00.000Z'',
      pickup = ''Canteen Pickup'', updatedAt = None\<rparr>"

definition example_user :: user where
  "example_user =
     \<lparr>uid = ''u-1'', name = ''Asha'', email = ''asha@example.edu'', phone = ''9000000001'',
      notifications = False\<rparr>"

definition example_world :: "order list \<Rightarrow> user list \<Rightarrow> world" where
  "example_world orders users =
     \<lparr>orders_json = \<lparr>content = Some (Arr orders), writable = True\<rparr>,
      users_json = \<lparr>content = Some (Arr users), writable = True\<rparr>,
      order_counter_json =
        \<lparr>content = Some (Obj (Some \<lparr>date = ''Mon Nov 02 2026'', counter = Exact 1\<rparr>)), writable = True\<rparr>,
      orders_table = [], dynamo_fails = False, outbox = []\<rparr>"

definition example_request :: "string \<Rightarrow> order_request" where
  "example_request owner =
     \<lparr>req_userId = owner, req_items = [\<lparr>item_id = ''A'', quantity = 2, price = 50\<rparr>],
      req_totalAmount = 100, req_paymentMethod = ''cash'', req_adminId = ''a-1'',
      req_orderType = None, req_scheduledTime = None\<rparr>"

section \<open>Rendering of numbers\<close>

lemma digit_val_digit: "d < 10 \<Longrightarrow> digit_val (digit d) = d"
proof -
  assume "d < 10"
  then consider "d = 0" | "d = 1" | "d = 2" | "d = 3" | "d = 4" | "d = 5" | "d = 6" | "d = 7" | "d = 8" | "d = 9"
    by atomize_elim arith
  then show ?thesis by cases (simp_all add: digit_def digit_val_def)
qed

lemma digit_not_minus: "d < 10 \<Longrightarrow> digit d \<noteq> CHR ''-''"
proof -
  assume "d < 10"
  then consider "d = 0" | "d = 1" | "d = 2" | "d = 3" | "d = 4" | "d = 5" | "d = 6" | "d = 7" | "d = 8" | "d = 9"
    by atomize_elim arith
  then show ?thesis by cases (simp_all add: digit_def)
qed


lemma read_show: "read_nat (show_nat n) = n"
proof (induction n rule: show_nat.induct)
  case (1 n)
  show ?case
  proof (cases "n < 10")
    case True
    then show ?thesis by (simp add: show_nat.simps[of n] read_nat_def digit_val_digit)
  next
    case False
    with 1 have "read_nat (show_nat (n div 10)) = n div 10" by simp
    with False show ?thesis
      by (simp add: show_nat.simps[of n] read_nat_def digit_val_digit)
  qed
qed

lemma show_nat_inj: "show_nat m = show_nat n \<Longrightarrow> m = n"
  by (metis read_show)

lemma show_nat_hd: "\<exists>d cs. d < 10 \<and> show_nat n = digit d # cs"
proof (induction n rule: show_nat.induct)
  case (1 n)
  show ?case
  proof (cases "n < 10")
    case True
    then show ?thesis by (subst show_nat.simps) auto
  next
    case False
    with 1 obtain d cs where "d < 10" "show_nat (n div 10) = digit d # cs" by blast
    with False show ?thesis by (subst show_nat.simps) auto
  qed
qed

lemma show_int_inj: "show_int i = show_int j \<Longrightarrow> i = j"
proof -
  assume eq: "show_int i = show_int j"
  have neg: "show_nat n \<noteq> CHR ''-'' # cs" for n cs
    using show_nat_hd[of n] digit_not_minus by (metis list.inject)
  show ?thesis
  proof (cases "i < 0"; cases "j < 0")
    assume "i < 0" "j < 0"
    with eq have "show_nat (nat (- i)) = show_nat (nat (- j))" by (simp add: show_int_def)
    then have "nat (- i) = nat (- j)" by (rule show_nat_inj)
    with \<open>i < 0\<close> \<open>j < 0\<close> show ?thesis by simp
  next
    assume "i < 0" "\<not> j < 0"
    with eq neg show ?thesis by (simp add: show_int_def) metis
  next
    assume "\<not> i < 0" "j < 0"
    with eq neg show ?thesis by (simp add: show_int_def)
  next
    assume "\<not> i < 0" "\<not> j < 0"
    with eq have "show_nat (nat i) = show_nat (nat j)" by (simp add: show_int_def)
    then have "nat i = nat j" by (rule show_nat_inj)
    with \<open>\<not> i < 0\<close> \<open>\<not> j < 0\<close> show ?thesis by simp
  qed
qed

lemma order_code_inj: "order_code i = order_code j \<Longrightarrow> i = j"
  by (simp add: order_code_def show_int_inj)


lemma order_code_1: "order_code 1 = ''CC-#1''"
  by (simp add: order_code_def show_int_def show_nat.simps digit_def)

section \<open>Arithmetic of the counter\<close>

lemma int_of_range: "- (2 ^ 53) \<le> int_of x \<and> int_of x \<le> 2 ^ 53"
  using int_of[of x] by simp

lemma int_of_Exact: "- (2 ^ 53) \<le> n \<Longrightarrow> n \<le> 2 ^ 53 \<Longrightarrow> int_of (Exact n) = n"
  by (simp add: Exact_inverse)

lemma plus_one_below: "int_of x < 2 ^ 53 \<Longrightarrow> plus_one x = Exact (int_of x + 1)"
  by (simp add: plus_one_def)

lemma int_of_plus_one_below: "int_of x < 2 ^ 53 \<Longrightarrow> int_of (plus_one x) = int_of x + 1"
  using int_of_range[of x] by (simp add: plus_one_below int_of_Exact)

lemma int_of_Exact_succ: "int_of x < 2 ^ 53 \<Longrightarrow> int_of (Exact (int_of x + 1)) = int_of x + 1"
  using int_of_range[of x] by (simp add: int_of_Exact)

lemma plus_one_top: "int_of x = 2 ^ 53 \<Longrightarrow> plus_one x = x"
  by (simp add: plus_one_def)

section \<open>The allocator\<close>

text \<open>
  C2, as amended: for every stored counter, \<^verbatim>\<open>generateOrderID\<close> on another day than the
  stored date resets the counter to 1 whatever it was, sets the stored date to the
  current day and returns \<^verbatim>\<open>CC-#1\<close>; on the stored day, for a counter below \<open>2 ^ 53\<close>, it
  adds exactly 1 and returns the code of the new value, and at \<open>2 ^ 53\<close> the counter and
  the code stay at \<open>2 ^ 53\<close>. In every case the counter is saved with \<^verbatim>\<open>saveToJSON\<close> before
  the code is returned, and a writable file then holds it.
\<close>

theorem nextOrderCode_reset_or_increment:
  assumes "content f = Some (Obj (Some c))"
  shows "(date c \<noteq> day \<longrightarrow>
            generateOrderID day f =
              (''CC-#1'', saveToJSON ''order-counter.json'' (Obj (Some \<lparr>date = day, counter = Exact 1\<rparr>)) f))
       \<and> (date c = day \<and> int_of (counter c) < 2 ^ 53 \<longrightarrow>
            generateOrderID day f =
              (order_code (int_of (counter c) + 1),
               saveToJSON ''order-counter.json''
                 (Obj (Some \<lparr>date = day, counter = Exact (int_of (counter c) + 1)\<rparr>)) f))
       \<and> (date c = day \<and> int_of (counter c) = 2 ^ 53 \<longrightarrow>
            generateOrderID day f =
              (order_code (2 ^ 53), saveToJSON ''order-counter.json'' (Obj (Some c)) f))
       \<and> (writable f \<longrightarrow>
            content (snd (generateOrderID day f)) =
              Some (Obj (Some \<lparr>date = day,
                               counter = (if date c \<noteq> day then Exact 1 else plus_one (counter c))\<rparr>)))"
proof -
  have other: "generateOrderID day f =
      (''CC-#1'', saveToJSON ''order-counter.json'' (Obj (Some \<lparr>date = day, counter = Exact 1\<rparr>)) f)"
    if "date c \<noteq> day"
    using assms that
    by (cases c) (simp add: generateOrderID_def readFromJSON_def order_code_1)
  have same: "generateOrderID day f =
      (order_code (int_of (plus_one (counter c))),
       saveToJSON ''order-counter.json'' (Obj (Some \<lparr>date = day, counter = plus_one (counter c)\<rparr>)) f)"
    if "date c = day"
    using assms that
    by (cases c) (simp add: generateOrderID_def readFromJSON_def)
  have below: "generateOrderID day f =
      (order_code (int_of (counter c) + 1),
       saveToJSON ''order-counter.json''
         (Obj (Some \<lparr>date = day, counter = Exact (int_of (counter c) + 1)\<rparr>)) f)"
    if "date c = day" "int_of (counter c) < 2 ^ 53"
    using same[OF that(1)] that(2)
    by (simp add: plus_one_below int_of_Exact_succ)
  have top: "generateOrderID day f =
      (order_code (2 ^ 53), saveToJSON ''order-counter.json'' (Obj (Some c)) f)"
    if "date c = day" "int_of (counter c) = 2 ^ 53"
    using same[OF that(1)] that
    by (cases c) (simp add: plus_one_top)
  have held: "content (snd (generateOrderID day f)) =
      Some (Obj (Some \<lparr>date = day,
                       counter = (if date c \<noteq> day then Exact 1 else plus_one (counter c))\<rparr>))"
    if "writable f"
    using other same that by (cases "date c = day") (simp_all add: saveToJSON_def)
  show ?thesis
    using other below top held by blast
qed

theorem nextOrderCode_reset_or_increment_witness:
  "generateOrderID ''Tue Nov 03 2026''
      \<lparr>content = Some (Obj (Some \<lparr>date = ''Mon Nov 02 2026'', counter = Exact 41\<rparr>)), writable = True\<rparr>
    = (''CC-#1'',
       \<lparr>content = Some (Obj (Some \<lparr>date = ''Tue Nov 03 2026'', counter = Exact 1\<rparr>)), writable = True\<rparr>)
   \<and> generateOrderID ''Tue Nov 03 2026''
      \<lparr>content = Some (Obj (Some \<lparr>date = ''Tue Nov 03 2026'', counter = Exact 41\<rparr>)), writable = True\<rparr>
    = (''CC-#42'',
       \<lparr>content = Some (Obj (Some \<lparr>date = ''Tue Nov 03 2026'', counter = Exact 42\<rparr>)), writable = True\<rparr>)
   \<and> generateOrderID ''Tue Nov 03 2026''
      \<lparr>content = Some (Obj (Some \<lparr>date = ''Tue Nov 03 2026'', counter = Exact (2 ^ 53)\<rparr>)), writable = True\<rparr>
    = (order_code (2 ^ 53),
       \<lparr>content = Some (Obj (Some \<lparr>date = ''Tue Nov 03 2026'', counter = Exact (2 ^ 53)\<rparr>)), writable = True\<rparr>)"
  using nextOrderCode_reset_or_increment
          [of "\<lparr>content = Some (Obj (Some \<lparr>date = ''Mon Nov 02 2026'', counter = Exact 41\<rparr>)), writable = True\<rparr>"
              "\<lparr>date = ''Mon Nov 02 2026'', counter = Exact 41\<rparr>" "''Tue Nov 03 2026''"]
        nextOrderCode_reset_or_increment
          [of "\<lparr>content = Some (Obj (Some \<lparr>date = ''Tue Nov 03 2026'', counter = Exact 41\<rparr>)), writable = True\<rparr>"
              "\<lparr>date = ''Tue Nov 03 2026'', counter = Exact 41\<rparr>" "''Tue Nov 03 2026''"]
        nextOrderCode_reset_or_increment
          [of "\<lparr>content = Some (Obj (Some \<lparr>date = ''Tue Nov 03 2026'', counter = Exact (2 ^ 53)\<rparr>)), writable = True\<rparr>"
              "\<lparr>date = ''Tue Nov 03 2026'', counter = Exact (2 ^ 53)\<rparr>" "''Tue Nov 03 2026''"]
  by (simp add: saveToJSON_def int_of_Exact order_code_def show_int_def show_nat.simps digit_def)

text \<open>
  At a stored counter of \<open>2 ^ 53 = 9007199254740992\<close> on the stored day the counter is not
  incremented: the returned code carries \<open>2 ^ 53\<close> again and the file is as before.
\<close>

theorem nextOrderCode_stuck_at_top:
  "generateOrderID ''Mon Nov 02 2026''
      \<lparr>content = Some (Obj (Some \<lparr>date = ''Mon Nov 02 2026'', counter = Exact 9007199254740992\<rparr>)),
       writable = True\<rparr>
    = (''CC-#9007199254740992'',
       \<lparr>content = Some (Obj (Some \<lparr>date = ''Mon Nov 02 2026'', counter = Exact 9007199254740992\<rparr>)),
        writable = True\<rparr>)"
  by (simp add: generateOrderID_def readFromJSON_def saveToJSON_def plus_one_def int_of_Exact
      order_code_def show_int_def show_nat.simps digit_def)

section \<open>Storage failures\<close>

text \<open>
  C8: the claim is that a failed read of a list-valued collection such as \<^verbatim>\<open>orders\<close> gives
  an empty sequence. \<^verbatim>\<open>readFromJSON\<close> tests \<^verbatim>\<open>Array.isArray\<close> on the file name, so a failed
  read of \<^verbatim>\<open>orders.json\<close> gives the empty object \<^verbatim>\<open>{}\<close> and not the empty array.
\<close>

theorem readFromJSON_failure_is_object:
  "readFromJSON ''orders.json'' \<lparr>content = None, writable = True\<rparr> = (Obj None :: order js)
   \<and> readFromJSON ''orders.json'' \<lparr>content = None, writable = True\<rparr> \<noteq> (Arr [] :: order js)"
  by (simp add: readFromJSON_def isArray_def)

lemma readFromJSON_failure: "content f = None \<Longrightarrow> readFromJSON filename f = Obj None"
  by (simp add: readFromJSON_def isArray_def)

lemma saveToJSON_failure: "\<not> writable f \<Longrightarrow> saveToJSON filename data f = f"
  by (simp add: saveToJSON_def)

section \<open>Allocations one after the other, and overlapping\<close>

lemma generateOrderID_same_day:
  assumes "writable f" "content f = Some (Obj (Some c))" "date c = day" "int_of (counter c) < 2 ^ 53"
  shows "generateOrderID day f =
           (order_code (int_of (counter c) + 1),
            f\<lparr>content := Some (Obj (Some (c\<lparr>counter := Exact (int_of (counter c) + 1)\<rparr>)))\<rparr>)"
  using assms
  by (simp add: generateOrderID_def readFromJSON_def saveToJSON_def
      plus_one_below int_of_Exact_succ)

lemma upt_0_Suc: "[0..<Suc n] = 0 # map Suc [0..<n]"
  by (simp add: upt_conv_Cons map_Suc_upt del: upt_Suc)

lemma allocate_same_day:
  assumes "writable f" "content f = Some (Obj (Some c))" "date c = day"
      and "int_of (counter c) + int n \<le> 2 ^ 53"
  shows "fst (allocate day n f) = map (\<lambda>k. order_code (int_of (counter c) + 1 + int k)) [0..<n]"
  using assms
proof (induction n arbitrary: f c)
  case 0
  then show ?case by simp
next
  case (Suc n)
  let ?c = "c\<lparr>counter := Exact (int_of (counter c) + 1)\<rparr>"
  let ?f = "f\<lparr>content := Some (Obj (Some ?c))\<rparr>"
  have below: "int_of (counter c) < 2 ^ 53"
    using Suc.prems(4) by simp
  have next_value: "int_of (counter ?c) = int_of (counter c) + 1"
    using below int_of_range[of "counter c"] by (simp add: int_of_Exact)
  have step: "generateOrderID day f = (order_code (int_of (counter c) + 1), ?f)"
    using Suc.prems(1-3) below by (rule generateOrderID_same_day)
  have "fst (allocate day n ?f) = map (\<lambda>k. order_code (int_of (counter ?c) + 1 + int k)) [0..<n]"
  proof (rule Suc.IH)
    show "writable ?f" using Suc.prems(1) by simp
    show "content ?f = Some (Obj (Some ?c))" by simp
    show "date ?c = day" using Suc.prems(3) by simp
    show "int_of (counter ?c) + int n \<le> 2 ^ 53"
      using Suc.prems(4) unfolding next_value by simp
  qed
  also have "\<dots> = map (\<lambda>k. order_code (int_of (counter c) + 1 + int (Suc k))) [0..<n]"
    unfolding next_value by (rule map_cong) (simp_all add: algebra_simps)
  finally have rest:
    "fst (allocate day n ?f) = map (\<lambda>k. order_code (int_of (counter c) + 1 + int (Suc k))) [0..<n]" .
  have "fst (allocate day (Suc n) f) = order_code (int_of (counter c) + 1) # fst (allocate day n ?f)"
    using step by (simp add: split_beta)
  also have "\<dots> = map (\<lambda>k. order_code (int_of (counter c) + 1 + int k)) (0 # map Suc [0..<n])"
    using rest by (simp add: o_def)
  finally show ?case
    by (simp only: upt_0_Suc)
qed

lemma generateOrderID_first_of_day:
  assumes "writable f" "unallocated day f"
  shows "generateOrderID day f =
           (order_code 1, f\<lparr>content := Some (Obj (Some \<lparr>date = day, counter = Exact 1\<rparr>))\<rparr>)"
proof (cases "content f")
  case None
  then show ?thesis
    using assms by (simp add: generateOrderID_def readFromJSON_def saveToJSON_def isArray_def)
next
  case (Some d)
  show ?thesis
  proof (cases d)
    case (Arr cs)
    with Some assms show ?thesis by (simp add: unallocated_def)
  next
    case (Obj x)
    show ?thesis
    proof (cases x)
      case None
      with Some Obj assms show ?thesis
        by (simp add: generateOrderID_def readFromJSON_def saveToJSON_def)
    next
      case inner: (Some c)
      show ?thesis
      proof (cases "date c = day")
        case False
        with Some Obj inner assms show ?thesis
          by (cases c) (simp add: generateOrderID_def readFromJSON_def saveToJSON_def)
      next
        case True
        with Some Obj inner assms have zero: "counter c = Exact 0"
          by (simp add: unallocated_def)
        have "int_of (counter c) = 0"
          unfolding zero by (simp add: int_of_Exact)
        then have "plus_one (counter c) = Exact 1" "int_of (plus_one (counter c)) = 1"
          by (simp_all add: plus_one_below int_of_Exact)
        with Some Obj inner True assms(1) show ?thesis
          by (cases c) (simp add: generateOrderID_def readFromJSON_def saveToJSON_def)
      qed
    qed
  qed
qed

lemma allocate_first_of_day:
  assumes "writable f" "unallocated day f" "int n \<le> 2 ^ 53"
  shows "fst (allocate day n f) = map (\<lambda>k. order_code (int k)) [1..<Suc n]"
proof (cases n)
  case 0
  then show ?thesis by simp
next
  case (Suc m)
  let ?c = "\<lparr>date = day, counter = Exact 1\<rparr>"
  let ?f = "f\<lparr>content := Some (Obj (Some ?c))\<rparr>"
  have one: "int_of (counter ?c) = 1"
    by (simp add: int_of_Exact)
  have step: "generateOrderID day f = (order_code 1, ?f)"
    using assms(1,2) by (rule generateOrderID_first_of_day)
  have "fst (allocate day m ?f) = map (\<lambda>k. order_code (int_of (counter ?c) + 1 + int k)) [0..<m]"
  proof (rule allocate_same_day)
    show "writable ?f" using assms(1) by simp
    show "content ?f = Some (Obj (Some ?c))" by simp
    show "date ?c = day" by simp
    show "int_of (counter ?c) + int m \<le> 2 ^ 53"
      using assms(3) Suc unfolding one by simp
  qed
  also have "\<dots> = map (\<lambda>k. order_code (int (Suc (Suc k)))) [0..<m]"
    unfolding one by (rule map_cong) (simp_all add: algebra_simps)
  finally have rest: "fst (allocate day m ?f) = map (\<lambda>k. order_code (int (Suc (Suc k)))) [0..<m]" .
  have "fst (allocate day (Suc m) f) = order_code 1 # fst (allocate day m ?f)"
    using step by (simp add: split_beta)
  also have "\<dots> = map (\<lambda>k. order_code (int (Suc k))) (0 # map Suc [0..<m])"
    using rest by (simp add: o_def)
  also have "\<dots> = map (\<lambda>k. order_code (int (Suc k))) [0..<Suc m]"
    by (simp only: upt_0_Suc)
  also have "\<dots> = map (\<lambda>k. order_code (int k)) (map Suc [0..<Suc m])"
    by (simp add: o_def del: upt_Suc)
  also have "\<dots> = map (\<lambda>k. order_code (int k)) [1..<Suc (Suc m)]"
    by (simp only: map_Suc_upt One_nat_def)
  finally show ?thesis
    using Suc by simp
qed

lemma distinct_order_codes: "distinct (map (\<lambda>k. order_code (int k)) [1..<Suc n])"
proof -
  have "inj_on (\<lambda>k. order_code (int k)) (set [1..<Suc n])"
    by (rule inj_onI) (auto dest: order_code_inj)
  then show ?thesis
    by (simp add: distinct_map del: upt_Suc)
qed

lemma run_append: "run day (xs @ ys) s = run day ys (run day xs s)"
  by (induction xs arbitrary: s) simp_all

lemma resume_twice:
  assumes "i < length calls" "calls ! i = Waiting"
  shows "run day [i, i] (f, calls) =
           (snd (generateOrderID day f), calls[i := Returned (fst (generateOrderID day f))])"
  using assms by (simp add: generateOrderID_def split_beta Let_def resume.simps)

lemma run_serial_from:
  "length pre = k \<Longrightarrow>
   run day (concat (map (\<lambda>i. [i, i]) [k..<k + m])) (f, pre @ replicate m Waiting) =
     (snd (allocate day m f), pre @ map Returned (fst (allocate day m f)))"
proof (induction m arbitrary: k pre f)
  case 0
  then show ?case by simp
next
  case (Suc m)
  let ?g = "generateOrderID day f"
  let ?pre = "pre @ [Returned (fst ?g)]"
  have sched: "[k..<k + Suc m] = k # [Suc k..<Suc k + m]"
    by (simp add: upt_conv_Cons del: upt_Suc)
  have at_k: "k < length (pre @ replicate (Suc m) Waiting)"
             "(pre @ replicate (Suc m) Waiting) ! k = Waiting"
    using Suc.prems by (simp_all add: nth_append)
  have upd: "(pre @ replicate (Suc m) Waiting)[k := Returned (fst ?g)] = ?pre @ replicate m Waiting"
    using Suc.prems by (simp add: list_update_append)
  have first: "run day [k, k] (f, pre @ replicate (Suc m) Waiting) = (snd ?g, ?pre @ replicate m Waiting)"
    using resume_twice[OF at_k, of day f] by (simp only: upd)
  have len: "length ?pre = Suc k"
    using Suc.prems by simp
  have later: "run day (concat (map (\<lambda>i. [i, i]) [Suc k..<Suc k + m])) (snd ?g, ?pre @ replicate m Waiting) =
        (snd (allocate day m (snd ?g)), ?pre @ map Returned (fst (allocate day m (snd ?g))))"
    using len by (rule Suc.IH)
  have "run day (concat (map (\<lambda>i. [i, i]) [k..<k + Suc m])) (f, pre @ replicate (Suc m) Waiting) =
        run day (concat (map (\<lambda>i. [i, i]) [Suc k..<Suc k + m])) (run day [k, k] (f, pre @ replicate (Suc m) Waiting))"
    unfolding sched by (simp only: list.map concat.simps run_append)
  also have "\<dots> = (snd (allocate day m (snd ?g)), ?pre @ map Returned (fst (allocate day m (snd ?g))))"
    unfolding first by (rule later)
  also have "\<dots> = (snd (allocate day (Suc m) f), pre @ map Returned (fst (allocate day (Suc m) f)))"
    by (simp add: split_beta)
  finally show ?case .
qed

lemma run_serial:
  "run day (serial n) (f, replicate n Waiting) =
     (snd (allocate day n f), map Returned (fst (allocate day n f)))"
  using run_serial_from[of "[]" 0 day n f] by (simp add: serial_def)

text \<open>
  C1, as amended: for every day and every \<open>N\<close> up to \<open>2 ^ 53\<close> (where the counter stops
  counting), when \<open>N\<close> allocations of that day run one after the other (no call reads
  the counter between another call's read and write), on a writable counter file with
  no allocation of that day yet, the codes are \<^verbatim>\<open>CC-#1\<close>, ..., \<^verbatim>\<open>CC-#N\<close> in allocation
  order, pairwise distinct.
\<close>

theorem serial_allocations_contiguous:
  assumes "writable f" "unallocated day f" "n \<le> 2 ^ 53"
  shows "snd (run day (serial n) (f, replicate n Waiting)) =
           map (\<lambda>k. Returned (order_code (int k))) [1..<Suc n]
       \<and> distinct (snd (run day (serial n) (f, replicate n Waiting)))
       \<and> (\<forall>i < n. snd (run day (serial n) (f, replicate n Waiting)) ! i = Returned (order_code (int i + 1)))"
proof -
  let ?codes = "map (\<lambda>k. order_code (int k)) [1..<Suc n]"
  have "int n \<le> int (2 ^ 53)"
    using assms(3) by (simp only: of_nat_le_iff)
  then have bound: "int n \<le> 2 ^ 53"
    by simp
  have codes: "snd (run day (serial n) (f, replicate n Waiting)) = map Returned ?codes"
    using assms(1,2) bound by (simp only: run_serial allocate_first_of_day snd_conv)
  have inj: "inj_on Returned (set ?codes)"
    by (simp add: inj_on_def)
  have dist: "distinct (map Returned ?codes)"
    using distinct_order_codes[of n] inj by (simp only: distinct_map)
  have nth: "map Returned ?codes ! i = Returned (order_code (int i + 1))" if "i < n" for i
  proof -
    have "[1..<Suc n] ! i = 1 + i"
      using that by (intro nth_upt) simp
    moreover have "i < length [1..<Suc n]"
      using that by (simp del: upt_Suc)
    ultimately show ?thesis
      by (simp add: add.commute del: upt_Suc)
  qed
  have "map Returned ?codes = map (\<lambda>k. Returned (order_code (int k))) [1..<Suc n]"
    by (simp only: map_map o_def)
  with dist nth show ?thesis
    unfolding codes by blast
qed

theorem serial_allocations_contiguous_witness:
  "snd (run ''Mon Nov 02 2026'' (serial 3)
          (\<lparr>content = Some (Obj (Some \<lparr>date = ''Sun Nov 01 2026'', counter = Exact 57\<rparr>)), writable = True\<rparr>,
           replicate 3 Waiting))
     = [Returned ''CC-#1'', Returned ''CC-#2'', Returned ''CC-#3'']"
  using serial_allocations_contiguous
          [of "\<lparr>content = Some (Obj (Some \<lparr>date = ''Sun Nov 01 2026'', counter = Exact 57\<rparr>)), writable = True\<rparr>"
              "''Mon Nov 02 2026''" 3]
  by (simp add: unallocated_def order_code_def show_int_def show_nat.simps digit_def upt_rec)

text \<open>
  Nothing serialises overlapping allocations: when two calls of the same day both read
  the counter before either writes, both return \<^verbatim>\<open>CC-#1\<close>.
\<close>

theorem overlapping_allocations_duplicate:
  "snd (run ''Mon Nov 02 2026'' [0, 1, 0, 1]
          (\<lparr>content = Some (Obj (Some \<lparr>date = ''Mon Nov 02 2026'', counter = Exact 0\<rparr>)), writable = True\<rparr>,
           [Waiting, Waiting]))
     = [Returned ''CC-#1'', Returned ''CC-#1'']"
  by (simp add: resume.simps readFromJSON_def saveToJSON_def plus_one_def int_of_Exact
      order_code_def show_int_def show_nat.simps digit_def)

section \<open>Lookups in the stored collections\<close>

lemma readFromJSON_stored: "content f = Some d \<Longrightarrow> readFromJSON filename f = d"
  by (simp add: readFromJSON_def)

lemma saveToDynamoDB_files [simp]:
  "orders_json (saveToDynamoDB item w) = orders_json w"
  "users_json (saveToDynamoDB item w) = users_json w"
  "order_counter_json (saveToDynamoDB item w) = order_counter_json w"
  "outbox (saveToDynamoDB item w) = outbox w"
  by (simp_all add: saveToDynamoDB_def)

lemma sendEmail_files [simp]:
  "orders_json (sendEmail n w) = orders_json w"
  "users_json (sendEmail n w) = users_json w"
  "order_counter_json (sendEmail n w) = order_counter_json w"
  "orders_table (sendEmail n w) = orders_table w"
  by (simp_all add: sendEmail_def)

lemma findIndex_Some:
  "findIndex p xs = Some i \<Longrightarrow> i < length xs \<and> p (xs ! i) \<and> (\<forall>j < i. \<not> p (xs ! j))"
proof (induction xs arbitrary: i)
  case Nil
  then show ?case by simp
next
  case (Cons x xs)
  show ?case
  proof (cases "p x")
    case True
    with Cons.prems show ?thesis by simp
  next
    case False
    with Cons.prems obtain k where k: "findIndex p xs = Some k" "i = Suc k"
      by auto
    from Cons.IH[OF k(1)] False k(2) show ?thesis
      by (auto simp: nth_Cons split: nat.splits)
  qed
qed

lemma findIndex_None: "findIndex p xs = None \<longleftrightarrow> (\<forall>x \<in> set xs. \<not> p x)"
  by (induction xs) auto

lemma findIndex_first:
  "i < length xs \<Longrightarrow> p (xs ! i) \<Longrightarrow> \<forall>j < i. \<not> p (xs ! j) \<Longrightarrow> findIndex p xs = Some i"
proof (induction xs arbitrary: i)
  case Nil
  then show ?case by simp
next
  case (Cons x xs)
  show ?case
  proof (cases i)
    case 0
    with Cons.prems show ?thesis by simp
  next
    case (Suc k)
    with Cons.prems have "\<not> p x" by auto
    moreover have "findIndex p xs = Some k"
      using Cons.prems Suc by (intro Cons.IH) auto
    ultimately show ?thesis using Suc by simp
  qed
qed

lemma findIndex_update:
  assumes "findIndex p xs = Some i" "p y"
  shows "findIndex p (xs[i := y]) = Some i"
proof -
  from findIndex_Some[OF assms(1)] have i: "i < length xs" "\<forall>j < i. \<not> p (xs ! j)" by auto
  show ?thesis
    using i assms(2) by (intro findIndex_first) auto
qed

lemma find_None: "find p xs = None \<longleftrightarrow> (\<forall>x \<in> set xs. \<not> p x)"
  by (auto simp: find_None_iff)

lemma generateOrderID_stored:
  assumes "content f = Some (Obj (Some c))"
  shows "generateOrderID day f =
           (order_code (if date c \<noteq> day then 1 else int_of (plus_one (counter c))),
            saveToJSON ''order-counter.json''
              (Obj (Some \<lparr>date = day,
                            counter = (if date c \<noteq> day then Exact 1 else plus_one (counter c))\<rparr>)) f)"
  using assms by (cases c) (simp add: generateOrderID_def readFromJSON_def)

section \<open>Status changes\<close>

text \<open>
  C3, as amended: \<^verbatim>\<open>PATCH /api/orders/:id/status\<close> checks no transition. For every
  existing order and every requested status, whatever the current status (\<^verbatim>\<open>delivered\<close>
  and \<^verbatim>\<open>cancelled\<close> included), the order with the requested status and the current time
  as \<^verbatim>\<open>updatedAt\<close> is saved in place of the old one, and is the body of a success response
  when \<^verbatim>\<open>users.json\<close> holds an array. The request fails with \<open>OrderNotFound\<close> when no
  stored order has the id, and the state is then unchanged.
\<close>

theorem setStatus_applies_any_status:
  assumes "content (orders_json w) = Some (Arr orders)"
  shows "(\<forall>i. findIndex (\<lambda>x. oid x = ident) orders = Some i \<longrightarrow>
            orders_json (snd (setStatus e ident s w)) =
              saveToJSON ''orders.json''
                (Arr (orders[i := (orders ! i)\<lparr>status := s, updatedAt := Some (now e)\<rparr>])) (orders_json w)
          \<and> (writable (orders_json w) \<longrightarrow>
                content (orders_json (snd (setStatus e ident s w))) =
                  Some (Arr (orders[i := (orders ! i)\<lparr>status := s, updatedAt := Some (now e)\<rparr>])))
          \<and> (\<forall>users. content (users_json w) = Some (Arr users) \<longrightarrow>
                fst (setStatus e ident s w) =
                  Success ((orders ! i)\<lparr>status := s, updatedAt := Some (now e)\<rparr>)))
       \<and> (findIndex (\<lambda>x. oid x = ident) orders = None \<longrightarrow>
            setStatus e ident s w = (Failure OrderNotFound, w))"
  using assms
  by (auto simp: setStatus_def readFromJSON_stored Let_def saveToJSON_def
      split: js.splits option.splits)

theorem setStatus_applies_any_status_witness:
  "setStatus example_env ''o-1'' ''preparing'' (example_world [example_order ''o-1'' ''pending''] [example_user])
     = (Success ((example_order ''o-1'' ''pending'')\<lparr>status := ''preparing'', updatedAt := Some ''2026-11-02T09:30:00.000Z''\<rparr>),
        (example_world [(example_order ''o-1'' ''pending'')\<lparr>status := ''preparing'', updatedAt := Some ''2026-11-02T09:30:00.000Z''\<rparr>] [example_user])
          \<lparr>orders_table := [(''o-1'', (example_order ''o-1'' ''pending'')\<lparr>status := ''preparing'', updatedAt := Some ''2026-11-02T09:30:00.000Z''\<rparr>)]\<rparr>)
   \<and> setStatus example_env ''o-2'' ''preparing'' (example_world [example_order ''o-1'' ''pending''] [example_user])
     = (Failure OrderNotFound, example_world [example_order ''o-1'' ''pending''] [example_user])"
  using setStatus_applies_any_status
          [of "example_world [example_order ''o-1'' ''pending''] [example_user]"
              "[example_order ''o-1'' ''pending'']" "''o-1''" example_env "''preparing''"]
        setStatus_applies_any_status
          [of "example_world [example_order ''o-1'' ''pending''] [example_user]"
              "[example_order ''o-1'' ''pending'']" "''o-2''" example_env "''preparing''"]
  by (simp add: example_world_def example_order_def example_user_def example_env_def
      setStatus_def readFromJSON_def saveToJSON_def saveToDynamoDB_def Let_def)

text \<open>
  A delivered order is set back to \<^verbatim>\<open>pending\<close>: the request succeeds and the stored status
  changes.
\<close>

theorem setStatus_from_delivered_succeeds:
  "setStatus example_env ''o-1'' ''pending'' (example_world [example_order ''o-1'' ''delivered''] [example_user])
     = (Success ((example_order ''o-1'' ''delivered'')\<lparr>status := ''pending'', updatedAt := Some ''2026-11-02T09:30:00.000Z''\<rparr>),
        (example_world [(example_order ''o-1'' ''delivered'')\<lparr>status := ''pending'', updatedAt := Some ''2026-11-02T09:30:00.000Z''\<rparr>] [example_user])
          \<lparr>orders_table := [(''o-1'', (example_order ''o-1'' ''delivered'')\<lparr>status := ''pending'', updatedAt := Some ''2026-11-02T09:30:00.000Z''\<rparr>)]\<rparr>)"
  by (simp add: example_world_def example_order_def example_user_def example_env_def
      setStatus_def readFromJSON_def saveToJSON_def saveToDynamoDB_def Let_def)

lemma setStatus_Success:
  assumes "setStatus e ident s w = (Success order', w')"
  obtains orders i where
    "content (orders_json w) = Some (Arr orders)"
    "findIndex (\<lambda>x. oid x = ident) orders = Some i"
    "order' = (orders ! i)\<lparr>status := s, updatedAt := Some (now e)\<rparr>"
    "orders_json w' = saveToJSON ''orders.json'' (Arr (orders[i := order'])) (orders_json w)"
    "users_json w' = users_json w"
    "order_counter_json w' = order_counter_json w"
proof (cases "content (orders_json w)")
  case None
  with assms show ?thesis
    by (simp add: setStatus_def readFromJSON_def isArray_def)
next
  case (Some d)
  show ?thesis
  proof (cases d)
    case (Obj x)
    with Some assms show ?thesis
      by (simp add: setStatus_def readFromJSON_def)
  next
    case (Arr orders)
    show ?thesis
    proof (cases "findIndex (\<lambda>x. oid x = ident) orders")
      case None
      with Some Arr assms show ?thesis
        by (simp add: setStatus_def readFromJSON_def)
    next
      case (Some i)
      from assms \<open>content (orders_json w) = Some d\<close> Arr Some
      have "order' = (orders ! i)\<lparr>status := s, updatedAt := Some (now e)\<rparr>
          \<and> orders_json w' = saveToJSON ''orders.json'' (Arr (orders[i := order'])) (orders_json w)
          \<and> users_json w' = users_json w \<and> order_counter_json w' = order_counter_json w"
        by (auto simp: setStatus_def readFromJSON_stored Let_def split: js.splits option.splits if_splits)
      with that \<open>content (orders_json w) = Some d\<close> Arr Some show ?thesis
        by blast
    qed
  qed
qed

text \<open>
  C10: a successful status change returns the target order with only \<open>status\<close> and
  \<open>updatedAt\<close> changed; the stored collection keeps its length and order, every other
  order is unchanged, and the other two files are unchanged.
\<close>

theorem setStatus_frame:
  assumes "setStatus e ident s w = (Success order', w')"
  shows "\<exists>orders orders' i.
           content (orders_json w) = Some (Arr orders) \<and> content (orders_json w') = Some (Arr orders')
         \<and> i < length orders \<and> oid (orders ! i) = ident
         \<and> order' = (orders ! i)\<lparr>status := s, updatedAt := Some (now e)\<rparr>
         \<and> oid order' = oid (orders ! i) \<and> orderId order' = orderId (orders ! i)
         \<and> userId order' = userId (orders ! i) \<and> adminId order' = adminId (orders ! i)
         \<and> items order' = items (orders ! i) \<and> totalAmount order' = totalAmount (orders ! i)
         \<and> paymentMethod order' = paymentMethod (orders ! i) \<and> orderType order' = orderType (orders ! i)
         \<and> scheduledTime order' = scheduledTime (orders ! i) \<and> otp order' = otp (orders ! i)
         \<and> createdAt order' = createdAt (orders ! i) \<and> pickup order' = pickup (orders ! i)
         \<and> length orders' = length orders
         \<and> (\<forall>j < length orders. j \<noteq> i \<longrightarrow> orders' ! j = orders ! j)
         \<and> (orders' ! i = order' \<or> orders' ! i = orders ! i)
         \<and> users_json w' = users_json w \<and> order_counter_json w' = order_counter_json w"
proof -
  from assms obtain orders i where h:
    "content (orders_json w) = Some (Arr orders)"
    "findIndex (\<lambda>x. oid x = ident) orders = Some i"
    "order' = (orders ! i)\<lparr>status := s, updatedAt := Some (now e)\<rparr>"
    "orders_json w' = saveToJSON ''orders.json'' (Arr (orders[i := order'])) (orders_json w)"
    "users_json w' = users_json w"
    "order_counter_json w' = order_counter_json w"
    by (rule setStatus_Success)
  have i: "i < length orders" "oid (orders ! i) = ident"
    using findIndex_Some[OF h(2)] by auto
  let ?orders' = "if writable (orders_json w) then orders[i := order'] else orders"
  have "content (orders_json w') = Some (Arr ?orders')"
    using h(1,4) by (simp add: saveToJSON_def)
  moreover have "length ?orders' = length orders"
    by simp
  moreover have "\<forall>j < length orders. j \<noteq> i \<longrightarrow> ?orders' ! j = orders ! j"
    by simp
  moreover have "?orders' ! i = order' \<or> ?orders' ! i = orders ! i"
    using i by simp
  ultimately show ?thesis
    using h(1,3,5,6) i by (intro exI[of _ orders] exI[of _ ?orders'] exI[of _ i]) simp
qed

theorem setStatus_frame_witness:
  "setStatus example_env ''o-2'' ''ready''
      (example_world [example_order ''o-1'' ''pending'', example_order ''o-2'' ''preparing''] [example_user])
     = (Success ((example_order ''o-2'' ''preparing'')\<lparr>status := ''ready'', updatedAt := Some ''2026-11-02T09:30:00.000Z''\<rparr>),
        (example_world
           [example_order ''o-1'' ''pending'',
            (example_order ''o-2'' ''preparing'')\<lparr>status := ''ready'', updatedAt := Some ''2026-11-02T09:30:00.000Z''\<rparr>]
           [example_user])
          \<lparr>orders_table := [(''o-2'', (example_order ''o-2'' ''preparing'')\<lparr>status := ''ready'', updatedAt := Some ''2026-11-02T09:30:00.000Z''\<rparr>)]\<rparr>)"
proof -
  let ?o = "(example_order ''o-2'' ''preparing'')\<lparr>status := ''ready'', updatedAt := Some ''2026-11-02T09:30:00.000Z''\<rparr>"
  let ?w = "example_world [example_order ''o-1'' ''pending'', example_order ''o-2'' ''preparing''] [example_user]"
  let ?w' = "(example_world [example_order ''o-1'' ''pending'', ?o] [example_user])\<lparr>orders_table := [(''o-2'', ?o)]\<rparr>"
  have run: "setStatus example_env ''o-2'' ''ready'' ?w = (Success ?o, ?w')"
    by (simp add: example_world_def example_order_def example_user_def example_env_def
        setStatus_def readFromJSON_def saveToJSON_def saveToDynamoDB_def Let_def)
  from setStatus_frame[OF run] show ?thesis
    by (simp add: run)
qed

section \<open>Cancellation\<close>

lemma cancelOrder_accepted:
  assumes "content (orders_json w) = Some (Arr orders)"
      and "findIndex (\<lambda>x. oid x = ident) orders = Some i"
      and "status (orders ! i) = ''pending'' \<or> status (orders ! i) = ''confirmed''"
  shows "cancelOrder e ident w =
           (Success ((orders ! i)\<lparr>status := ''cancelled'', updatedAt := Some (now e)\<rparr>),
            saveToDynamoDB ((orders ! i)\<lparr>status := ''cancelled'', updatedAt := Some (now e)\<rparr>)
              (w\<lparr>orders_json := saveToJSON ''orders.json''
                    (Arr (orders[i := (orders ! i)\<lparr>status := ''cancelled'', updatedAt := Some (now e)\<rparr>]))
                    (orders_json w)\<rparr>))"
  using assms by (auto simp: cancelOrder_def readFromJSON_stored Let_def)

lemma cancelOrder_refused:
  assumes "content (orders_json w) = Some (Arr orders)"
      and "findIndex (\<lambda>x. oid x = ident) orders = Some i"
      and "status (orders ! i) \<noteq> ''pending''" "status (orders ! i) \<noteq> ''confirmed''"
  shows "cancelOrder e ident w = (Failure NotCancellable, w)"
  using assms by (simp add: cancelOrder_def readFromJSON_stored)

text \<open>
  C4, as amended: for every existing order, \<^verbatim>\<open>PATCH /api/orders/:id/cancel\<close> succeeds if
  and only if the current status is \<^verbatim>\<open>pending\<close> or \<^verbatim>\<open>confirmed\<close>; on success the status is
  \<^verbatim>\<open>cancelled\<close> and \<open>updatedAt\<close> the current time; otherwise the response is
  \<open>NotCancellable\<close> and the state is unchanged; after a stored cancellation every further
  cancellation of that order fails with \<open>NotCancellable\<close>.
\<close>

theorem cancelOrder_iff_pending_or_confirmed:
  assumes "content (orders_json w) = Some (Arr orders)"
      and "findIndex (\<lambda>x. oid x = ident) orders = Some i"
  shows "((\<exists>order. fst (cancelOrder e ident w) = Success order) \<longleftrightarrow>
            status (orders ! i) = ''pending'' \<or> status (orders ! i) = ''confirmed'')
       \<and> (status (orders ! i) = ''pending'' \<or> status (orders ! i) = ''confirmed'' \<longrightarrow>
            cancelOrder e ident w =
              (Success ((orders ! i)\<lparr>status := ''cancelled'', updatedAt := Some (now e)\<rparr>),
               saveToDynamoDB ((orders ! i)\<lparr>status := ''cancelled'', updatedAt := Some (now e)\<rparr>)
                 (w\<lparr>orders_json := saveToJSON ''orders.json''
                       (Arr (orders[i := (orders ! i)\<lparr>status := ''cancelled'', updatedAt := Some (now e)\<rparr>]))
                       (orders_json w)\<rparr>)))
       \<and> (status (orders ! i) \<noteq> ''pending'' \<and> status (orders ! i) \<noteq> ''confirmed'' \<longrightarrow>
            cancelOrder e ident w = (Failure NotCancellable, w))
       \<and> ((status (orders ! i) = ''pending'' \<or> status (orders ! i) = ''confirmed'') \<and> writable (orders_json w) \<longrightarrow>
            cancelOrder e' ident (snd (cancelOrder e ident w)) =
              (Failure NotCancellable, snd (cancelOrder e ident w)))"
proof -
  let ?c = "(orders ! i)\<lparr>status := ''cancelled'', updatedAt := Some (now e)\<rparr>"
  let ?w = "saveToDynamoDB ?c (w\<lparr>orders_json := saveToJSON ''orders.json'' (Arr (orders[i := ?c])) (orders_json w)\<rparr>)"
  have i: "i < length orders" "oid (orders ! i) = ident"
    using findIndex_Some[OF assms(2)] by auto
  have acc: "cancelOrder e ident w = (Success ?c, ?w)"
    if "status (orders ! i) = ''pending'' \<or> status (orders ! i) = ''confirmed''"
    using assms that by (rule cancelOrder_accepted)
  have rej: "cancelOrder e ident w = (Failure NotCancellable, w)"
    if "status (orders ! i) \<noteq> ''pending''" "status (orders ! i) \<noteq> ''confirmed''"
    using assms that by (rule cancelOrder_refused)
  have again: "cancelOrder e' ident ?w = (Failure NotCancellable, ?w)" if "writable (orders_json w)"
  proof (rule cancelOrder_refused)
    show "content (orders_json ?w) = Some (Arr (orders[i := ?c]))"
      using that by (simp add: saveToJSON_def)
    show "findIndex (\<lambda>x. oid x = ident) (orders[i := ?c]) = Some i"
      using assms(2) i by (intro findIndex_update) simp_all
    show "status (orders[i := ?c] ! i) \<noteq> ''pending''" "status (orders[i := ?c] ! i) \<noteq> ''confirmed''"
      using i by simp_all
  qed
  have iff: "(\<exists>order. fst (cancelOrder e ident w) = Success order) \<longleftrightarrow>
               status (orders ! i) = ''pending'' \<or> status (orders ! i) = ''confirmed''"
  proof (cases "status (orders ! i) = ''pending'' \<or> status (orders ! i) = ''confirmed''")
    case True
    then show ?thesis using acc by simp
  next
    case False
    then show ?thesis using rej by simp
  qed
  show ?thesis
    using iff acc rej again by simp
qed

theorem cancelOrder_iff_pending_or_confirmed_witness:
  "cancelOrder example_env ''o-1'' (example_world [example_order ''o-1'' ''confirmed''] [example_user])
     = (Success ((example_order ''o-1'' ''confirmed'')\<lparr>status := ''cancelled'', updatedAt := Some ''2026-11-02T09:30:00.000Z''\<rparr>),
        (example_world [(example_order ''o-1'' ''confirmed'')\<lparr>status := ''cancelled'', updatedAt := Some ''2026-11-02T09:30:00.000Z''\<rparr>] [example_user])
          \<lparr>orders_table := [(''o-1'', (example_order ''o-1'' ''confirmed'')\<lparr>status := ''cancelled'', updatedAt := Some ''2026-11-02T09:30:00.000Z''\<rparr>)]\<rparr>)
   \<and> cancelOrder example_env ''o-1'' (example_world [example_order ''o-1'' ''ready''] [example_user])
     = (Failure NotCancellable, example_world [example_order ''o-1'' ''ready''] [example_user])
   \<and> fst (cancelOrder example_env ''o-1''
          (snd (cancelOrder example_env ''o-1'' (example_world [example_order ''o-1'' ''confirmed''] [example_user]))))
     = Failure NotCancellable"
  using cancelOrder_iff_pending_or_confirmed
          [of "example_world [example_order ''o-1'' ''confirmed''] [example_user]"
              "[example_order ''o-1'' ''confirmed'']" "''o-1''" 0 example_env example_env]
        cancelOrder_iff_pending_or_confirmed
          [of "example_world [example_order ''o-1'' ''ready''] [example_user]"
              "[example_order ''o-1'' ''ready'']" "''o-1''" 0 example_env example_env]
  by (simp add: example_world_def example_order_def example_user_def example_env_def
      cancelOrder_def readFromJSON_def saveToJSON_def saveToDynamoDB_def Let_def)

text \<open>
  A cancelled order is not terminal for \<^verbatim>\<open>PATCH /api/orders/:id/status\<close>: the status
  change after the cancellation succeeds.
\<close>

theorem setStatus_after_cancel_succeeds:
  "fst (cancelOrder example_env ''o-1'' (example_world [example_order ''o-1'' ''pending''] [example_user]))
     = Success ((example_order ''o-1'' ''pending'')\<lparr>status := ''cancelled'', updatedAt := Some ''2026-11-02T09:30:00.000Z''\<rparr>)
   \<and> fst (setStatus example_env ''o-1'' ''preparing''
          (snd (cancelOrder example_env ''o-1'' (example_world [example_order ''o-1'' ''pending''] [example_user]))))
     = Success ((example_order ''o-1'' ''pending'')\<lparr>status := ''preparing'', updatedAt := Some ''2026-11-02T09:30:00.000Z''\<rparr>)"
  by (simp add: example_world_def example_order_def example_user_def example_env_def
      cancelOrder_def setStatus_def readFromJSON_def saveToJSON_def saveToDynamoDB_def Let_def)

section \<open>Listing\<close>

lemma enrich_base [simp]: "base (enrich users order) = order"
  by (simp add: enrich_def split: option.splits)

text \<open>
  C5: with no filter, \<^verbatim>\<open>GET /api/orders\<close> returns every stored order, in the exact reverse
  of the stored order, each with the name and phone of its owner.
\<close>

theorem listOrders_unfiltered_reverse:
  assumes "content (orders_json w) = Some (Arr orders)"
      and "content (users_json w) = Some (Arr users)"
  shows "listOrders None None None w = Success (rev (map (enrich users) orders))
       \<and> map base (rev (map (enrich users) orders)) = rev orders
       \<and> (\<forall>order \<in> set orders. \<forall>u.
             find (\<lambda>u. uid u = userId order) users = Some u \<and> name u \<noteq> [] \<and> phone u \<noteq> [] \<longrightarrow>
             enrich users order = \<lparr>base = order, userName = name u, userPhone = phone u\<rparr>)"
proof -
  have "listOrders None None None w = Success (rev (map (enrich users) orders))"
    using assms by (simp add: listOrders_def readFromJSON_stored apply_filter_def)
  moreover have "map base (rev (map (enrich users) orders)) = rev orders"
    by (simp add: rev_map o_def)
  moreover have "enrich users order = \<lparr>base = order, userName = name u, userPhone = phone u\<rparr>"
    if "find (\<lambda>u. uid u = userId order) users = Some u" "name u \<noteq> []" "phone u \<noteq> []" for order u
    using that by (simp add: enrich_def)
  ultimately show ?thesis by blast
qed

theorem listOrders_unfiltered_reverse_witness:
  "listOrders None None None
      (example_world [example_order ''o-1'' ''pending'', example_order ''o-2'' ''ready''] [example_user])
     = Success [\<lparr>base = example_order ''o-2'' ''ready'', userName = ''Asha'', userPhone = ''9000000001''\<rparr>,
                \<lparr>base = example_order ''o-1'' ''pending'', userName = ''Asha'', userPhone = ''9000000001''\<rparr>]"
  using listOrders_unfiltered_reverse
          [of "example_world [example_order ''o-1'' ''pending'', example_order ''o-2'' ''ready''] [example_user]"
              "[example_order ''o-1'' ''pending'', example_order ''o-2'' ''ready'']" "[example_user]"]
  by (simp add: example_world_def example_order_def example_user_def enrich_def)

section \<open>Order creation\<close>

text \<open>
  C6: a failing DynamoDB put changes neither the response of \<^verbatim>\<open>POST /api/orders\<close> nor the
  data files nor the e-mail sent, and the failed put is not repeated: the table is as
  it was.
\<close>

theorem createOrder_ignores_mirror_failure:
  "fst (createOrder e req (w\<lparr>dynamo_fails := True\<rparr>)) = fst (createOrder e req (w\<lparr>dynamo_fails := False\<rparr>))
   \<and> durable (snd (createOrder e req (w\<lparr>dynamo_fails := True\<rparr>)))
       = durable (snd (createOrder e req (w\<lparr>dynamo_fails := False\<rparr>)))
   \<and> outbox (snd (createOrder e req (w\<lparr>dynamo_fails := True\<rparr>)))
       = outbox (snd (createOrder e req (w\<lparr>dynamo_fails := False\<rparr>)))
   \<and> orders_table (snd (createOrder e req (w\<lparr>dynamo_fails := True\<rparr>))) = orders_table w"
  by (simp add: createOrder_def Let_def split_beta saveToDynamoDB_def durable_def sendEmail_def
      split: js.splits option.splits)

text \<open>
  C7: the claim is that an \<^verbatim>\<open>ownerId\<close> that resolves to no user gives a typed
  \<open>OwnerNotFound\<close> failure. The route has no such check: \<^verbatim>\<open>user.email\<close> throws on the
  undefined user and the \<^verbatim>\<open>catch\<close> answers 500 with the exception's message.
\<close>

theorem createOrder_unknown_owner_is_internal_error:
  "fst (createOrder example_env (example_request ''u-404'') (example_world [] [example_user]))
     = Failure (InternalError (PropertyOfUndefined ''email''))
   \<and> http_status (fst (createOrder example_env (example_request ''u-404'') (example_world [] [example_user]))) = 500"
  by (simp add: createOrder_def Let_def split_beta example_world_def example_user_def
      example_request_def readFromJSON_def saveToJSON_def saveToDynamoDB_def generateOrderID_def)

text \<open>
  C9: when the owner resolves to no user, the failing \<^verbatim>\<open>POST /api/orders\<close> has already
  saved the new order (with its allocated code, its OTP and status \<^verbatim>\<open>pending\<close>) at the end
  of the orders collection, put it in the mirror and saved the incremented counter;
  nothing is undone.
\<close>

theorem createOrder_unknown_owner_keeps_order:
  assumes "content (orders_json w) = Some (Arr orders)"
      and "content (users_json w) = Some (Arr users)"
      and "\<forall>u \<in> set users. uid u \<noteq> req_userId req"
  shows "fst (createOrder e req w) = Failure (InternalError (PropertyOfUndefined ''email''))
       \<and> orders_json (snd (createOrder e req w)) =
           saveToJSON ''orders.json''
             (Arr (orders @ [new_order e req (fst (generateOrderID (today e) (order_counter_json w)))]))
             (orders_json w)
       \<and> (writable (orders_json w) \<longrightarrow>
            content (orders_json (snd (createOrder e req w))) =
              Some (Arr (orders @ [new_order e req (fst (generateOrderID (today e) (order_counter_json w)))])))
       \<and> orderId (new_order e req (fst (generateOrderID (today e) (order_counter_json w))))
           = fst (generateOrderID (today e) (order_counter_json w))
       \<and> otp (new_order e req (fst (generateOrderID (today e) (order_counter_json w)))) = otp4 e
       \<and> status (new_order e req (fst (generateOrderID (today e) (order_counter_json w)))) = ''pending''
       \<and> order_counter_json (snd (createOrder e req w)) = snd (generateOrderID (today e) (order_counter_json w))
       \<and> (\<forall>c. content (order_counter_json w) = Some (Obj (Some c)) \<and> writable (order_counter_json w) \<longrightarrow>
            content (order_counter_json (snd (createOrder e req w))) =
              Some (Obj (Some \<lparr>date = today e, counter = (if date c \<noteq> today e then Exact 1 else plus_one (counter c))\<rparr>)))
       \<and> (\<not> dynamo_fails w \<longrightarrow>
            orders_table (snd (createOrder e req w)) =
              put (uuid e) (new_order e req (fst (generateOrderID (today e) (order_counter_json w)))) (orders_table w))"
proof -
  let ?g = "generateOrderID (today e) (order_counter_json w)"
  let ?order = "new_order e req (fst ?g)"
  let ?w2 = "w\<lparr>order_counter_json := snd ?g,
               orders_json := saveToJSON ''orders.json'' (Arr (orders @ [?order])) (orders_json w)\<rparr>"
  have nobody: "find (\<lambda>u. uid u = req_userId req) users = None"
    using assms(3) by (simp add: find_None)
  have run: "createOrder e req w =
               (Failure (InternalError (PropertyOfUndefined ''email'')), saveToDynamoDB ?order ?w2)"
    using assms(1,2) nobody
    by (simp add: createOrder_def Let_def split_beta readFromJSON_stored)
  have counter: "content (order_counter_json (snd (createOrder e req w))) =
          Some (Obj (Some \<lparr>date = today e, counter = (if date c \<noteq> today e then Exact 1 else plus_one (counter c))\<rparr>))"
    if "content (order_counter_json w) = Some (Obj (Some c))" "writable (order_counter_json w)" for c
    using that by (simp add: run generateOrderID_stored saveToJSON_def)
  have fields: "orderId ?order = fst ?g" "otp ?order = otp4 e" "status ?order = ''pending''" "oid ?order = uuid e"
    by (simp_all add: new_order_def)
  have table: "orders_table (snd (createOrder e req w)) = put (uuid e) ?order (orders_table w)"
    if "\<not> dynamo_fails w"
    using that by (simp add: run saveToDynamoDB_def fields)
  have stored: "content (orders_json (snd (createOrder e req w))) = Some (Arr (orders @ [?order]))"
    if "writable (orders_json w)"
    using that by (simp add: run saveToJSON_def)
  show ?thesis
    using counter fields table stored by (simp add: run)
qed

theorem createOrder_unknown_owner_keeps_order_witness:
  "fst (createOrder example_env (example_request ''u-404'')
          (example_world [example_order ''o-1'' ''pending''] [example_user]))
     = Failure (InternalError (PropertyOfUndefined ''email''))
   \<and> content (orders_json (snd (createOrder example_env (example_request ''u-404'')
          (example_world [example_order ''o-1'' ''pending''] [example_user]))))
     = Some (Arr [example_order ''o-1'' ''pending'',
                  new_order example_env (example_request ''u-404'') ''CC-#2''])
   \<and> content (order_counter_json (snd (createOrder example_env (example_request ''u-404'')
          (example_world [example_order ''o-1'' ''pending''] [example_user]))))
     = Some (Obj (Some \<lparr>date = ''Mon Nov 02 2026'', counter = Exact 2\<rparr>))"
proof -
  let ?w = "example_world [example_order ''o-1'' ''pending''] [example_user]"
  have code: "fst (generateOrderID (today example_env) (order_counter_json ?w)) = ''CC-#2''"
    by (simp add: generateOrderID_def readFromJSON_def example_world_def example_env_def
        plus_one_def int_of_Exact order_code_def show_int_def show_nat.simps digit_def)
  have h: "content (orders_json ?w) = Some (Arr [example_order ''o-1'' ''pending''])"
          "content (users_json ?w) = Some (Arr [example_user])"
          "\<forall>u \<in> set [example_user]. uid u \<noteq> req_userId (example_request ''u-404'')"
    by (simp_all add: example_world_def example_user_def example_request_def)
  have c: "content (order_counter_json ?w) = Some (Obj (Some \<lparr>date = ''Mon Nov 02 2026'', counter = Exact 1\<rparr>))"
          "writable (order_counter_json ?w)" "writable (orders_json ?w)"
    by (simp_all add: example_world_def)
  from createOrder_unknown_owner_keeps_order[OF h, of example_env] c code
  show ?thesis
    by (simp add: example_env_def example_world_def saveToJSON_def generateOrderID_def readFromJSON_def
        plus_one_def int_of_Exact)
qed

section \<open>What the routes do on a storage failure\<close>

text \<open>
  A write that fails is not reported: the cancellation answers success and the orders
  file is as before.
\<close>

lemma failed_write_still_success:
  assumes "content (orders_json w) = Some (Arr orders)"
      and "findIndex (\<lambda>x. oid x = ident) orders = Some i"
      and "status (orders ! i) = ''pending'' \<or> status (orders ! i) = ''confirmed''"
      and "\<not> writable (orders_json w)"
  shows "fst (cancelOrder e ident w) =
           Success ((orders ! i)\<lparr>status := ''cancelled'', updatedAt := Some (now e)\<rparr>)
       \<and> orders_json (snd (cancelOrder e ident w)) = orders_json w"
  using assms by (simp add: cancelOrder_accepted saveToJSON_failure)

text \<open>
  With \<^verbatim>\<open>{}\<close> for an unreadable \<^verbatim>\<open>orders.json\<close>, every order route throws on the first array
  method and answers 500.
\<close>

lemma failed_read_is_internal_error:
  assumes "content (orders_json w) = None"
  shows "fst (createOrder e req w) = Failure (InternalError (NotAFunction ''orders.push''))"
    and "setStatus e ident s w = (Failure (InternalError (NotAFunction ''orders.find'')), w)"
    and "cancelOrder e ident w = (Failure (InternalError (NotAFunction ''orders.find'')), w)"
    and "listOrders None None None w = Failure (InternalError (NotAFunction ''orders.map''))"
  using assms
  by (simp_all add: createOrder_def setStatus_def cancelOrder_def listOrders_def
      readFromJSON_failure split_beta Let_def)

end
